theory Spec2Isabelle
  imports Main
begin

section \<open>Strings and dictionaries\<close>

text \<open>
  A Python \<^verbatim>\<open>str\<close> is a sequence of Unicode code points, so a string is a list of
  code points here. The function \<open>ustr\<close> reads an ASCII literal as such a list. A
  literal of the source that holds a code point beyond ASCII is written out as the
  list of code points that the source file, read as UTF-8, stores between the quotes.
\<close>

type_synonym ustring = "nat list"

definition ustr :: "string \<Rightarrow> ustring" where
  "ustr s = map of_char s"

text \<open>
  A \<^verbatim>\<open>dict\<close> literal is the list of its items in source order. No key occurs twice
  in any literal of the module (\<open>distinct_keys\<close> below), so the first match of
  \<open>map_of\<close> is the value Python binds to the key.
\<close>

type_synonym dict = "(ustring \<times> ustring) list"

definition dict_keys :: "dict \<Rightarrow> ustring list" where
  "dict_keys d = map fst d"

text \<open>\<^verbatim>\<open>d.get(k, default)\<close>: the value at \<open>k\<close>, or the default; it never raises.\<close>

definition dict_get :: "dict \<Rightarrow> ustring \<Rightarrow> ustring \<Rightarrow> ustring" where
  "dict_get d k dflt = (case map_of d k of None \<Rightarrow> dflt | Some v \<Rightarrow> v)"

section \<open>The three tables of \<^verbatim>\<open>toolkit_theme.py\<close>\<close>

text \<open>
  \<^verbatim>\<open>toolkit_theme = Theme({...})\<close> (lines 29-79). The \<^verbatim>\<open>Theme\<close> class belongs to
  the rendering library; the value modelled is the dictionary of styles the module
  hands to it.
\<close>

definition toolkit_theme :: dict where
  "toolkit_theme =
    [(ustr ''success'', ustr ''bold #00FF88''),
     (ustr ''warning'', ustr ''bold #FFD166''),
     (ustr ''error'', ustr ''bold #FF5555''),
     (ustr ''info'', ustr ''bold #00AEEF''),
     (ustr ''context'', ustr ''#00AEEF''),
     (ustr ''comment'', ustr ''dim #7B7F8B''),
     (ustr ''meta'', ustr ''italic #7B7F8B''),
     (ustr ''educational'', ustr ''#B26FFF''),
     (ustr ''diff.add'', ustr ''black on #00FF88''),
     (ustr ''diff.remove'', ustr ''black on #FF4C6A''),
     (ustr ''diff.context'', ustr ''#E0E0E0''),
     (ustr ''prompt'', ustr ''bold #00AEEF''),
     (ustr ''title'', ustr ''bold #00AEEF''),
     (ustr ''subtitle'', ustr ''#7B7F8B''),
     (ustr ''file'', ustr ''#00AEEF''),
     (ustr ''path'', ustr ''#00FF88''),
     (ustr ''code.keyword'', ustr ''#00AEEF''),
     (ustr ''code.function'', ustr ''#00FF88''),
     (ustr ''code.string'', ustr ''#FFD166''),
     (ustr ''code.number'', ustr ''#B26FFF''),
     (ustr ''code.comment'', ustr ''#7B7F8B''),
     (ustr ''code.type'', ustr ''#00AEEF''),
     (ustr ''code.operator'', ustr ''#00FF88''),
     (ustr ''progress.description'', ustr ''#E0E0E0''),
     (ustr ''progress.percentage'', ustr ''#00FF88''),
     (ustr ''progress.download'', ustr ''#00AEEF''),
     (ustr ''progress.remaining'', ustr ''#7B7F8B''),
     (ustr ''table.header'', ustr ''bold #00AEEF''),
     (ustr ''table.border'', ustr ''#3A3A3A''),
     (ustr ''table.cell'', ustr ''#E0E0E0''),
     (ustr ''link'', ustr ''underline #00FF88''),
     (ustr ''highlight'', ustr ''reverse #00FF88''),
     (ustr ''emphasis'', ustr ''#FFD166''),
     (ustr ''strong'', ustr ''bold #00FF88'')]"

text \<open>
  \<^verbatim>\<open>STATUS_ICONS\<close> (lines 82-93). The glyphs are the code points stored in the file:
  for \<^verbatim>\<open>"success"\<close> these are U+00E2, U+0153, U+2026, for \<^verbatim>\<open>"lambda"\<close> U+00CE,
  U+00BB, and so on.
\<close>

definition STATUS_ICONS :: dict where
  "STATUS_ICONS =
    [(ustr ''success'', [0xE2, 0x153, 0x2026]),
     (ustr ''warning'', [0xE2, 0x161, 0xA0, 0xEF, 0xB8]),
     (ustr ''error'', [0xE2, 0x152]),
     (ustr ''info'', [0xF0, 0x178, 0x2019, 0xA1]),
     (ustr ''context'', [0xF0, 0x178, 0xA7, 0xA9]),
     (ustr ''learning'', [0xF0, 0x178, 0x2019, 0xA1]),
     (ustr ''drift'', [0xE2, 0x161, 0xA0, 0xEF, 0xB8]),
     (ustr ''ship'', [0xF0, 0x178, 0x161, 0x20AC]),
     (ustr ''thought'', [0xF0, 0x178, 0xA7, 0xA0]),
     (ustr ''lambda'', [0xCE, 0xBB])]"

text \<open>\<^verbatim>\<open>PROGRESS_BAR_STYLE\<close> (lines 96-101).\<close>

definition PROGRESS_BAR_STYLE :: dict where
  "PROGRESS_BAR_STYLE =
    [(ustr ''bar.complete'', ustr ''#00FF88''),
     (ustr ''bar.finished'', ustr ''#00FF88''),
     (ustr ''bar.pulse'', ustr ''#00AEEF''),
     (ustr ''progress.elapsed'', ustr ''#7B7F8B'')]"

section \<open>Module state, consoles and the external renderer\<close>

text \<open>
  A \<^verbatim>\<open>Console\<close> object: its identity (the objects are numbered in the order of their
  construction) and the two keyword arguments the module passes to the constructor.
\<close>

record console =
  ident :: nat
  theme :: dict
  highlight :: bool

text \<open>
  The module's globals are mutable bindings to mutable objects, and the functions read
  them when they are called. So the three tables are fields of the state, next to what
  the functions change: the number of \<^verbatim>\<open>Console\<close> objects constructed so far, the
  \<^verbatim>\<open>console.print\<close> calls made (the console, the text and the style name), and the
  text and style of the calls the console rendered.
\<close>

record world =
  toolkit_theme_v :: dict
  STATUS_ICONS_v :: dict
  PROGRESS_BAR_STYLE_v :: dict
  constructed :: nat
  requests :: "(console \<times> ustring \<times> ustring) list"
  written :: "(ustring \<times> ustring) list"

text \<open>The state once the module body (lines 27-101) has run.\<close>

definition module_load :: world where
  "module_load =
     \<lparr>toolkit_theme_v = toolkit_theme, STATUS_ICONS_v = STATUS_ICONS,
      PROGRESS_BAR_STYLE_v = PROGRESS_BAR_STYLE,
      constructed = 0, requests = [], written = []\<rparr>"

definition tables_loaded :: "world \<Rightarrow> bool" where
  "tables_loaded w \<longleftrightarrow>
     toolkit_theme_v w = toolkit_theme \<and> STATUS_ICONS_v w = STATUS_ICONS \<and>
     PROGRESS_BAR_STYLE_v w = PROGRESS_BAR_STYLE"

text \<open>
  \<^verbatim>\<open>get_console\<close> (lines 103-111):
  \<^verbatim>\<open>return Console(theme=toolkit_theme, highlight=False)\<close>.
\<close>

definition get_console :: "world \<Rightarrow> console \<times> world" where
  "get_console w =
     (\<lparr>ident = constructed w, theme = toolkit_theme_v w, highlight = False\<rparr>,
      w\<lparr>constructed := Suc (constructed w)\<rparr>)"

text \<open>
  An error raised inside the rendering library: its complaint about markup in the text
  that it cannot parse (the text is carried along), its complaint about a style name
  it cannot resolve (the name is carried along), and a failure of the output stream.
\<close>

datatype console_error = MarkupError ustring | MissingStyle ustring | OutputError

text \<open>
  What the rendering library does inside a call is not decided in this module. It is a
  parameter of the model with two parts. The first says whether the library raises
  while it reads and writes the text itself (markup it cannot parse, a broken output
  stream). The second says what it does with a style name that is not a key of the
  console's theme. In both, \<open>None\<close> means that the library goes on and \<open>Some e\<close> that
  it raises \<open>e\<close>.
\<close>

record renderer =
  write_error :: "ustring \<Rightarrow> console_error option"
  style_error :: "ustring \<Rightarrow> console_error option"

text \<open>
  Modelled from the spec: \<^verbatim>\<open>console.print(text, style=name)\<close> is a method of the
  external console, which is not part of this repository (section 6: it "resolves name
  against the style table and writes"; section 7: a failure of the console write is
  "propagated unmodified to the caller"; section 9: what happens to an unknown style
  name "depends entirely on the external renderer"). \<open>console_outcome\<close> is the
  console's answer to a call: the failure on the text comes first, since the library
  reads the text before it resolves the style; then a style name that is a key of the
  console's theme is resolved, and for any other name the renderer decides. Either
  failure ends the call with nothing written.
  \<open>console_print\<close> records every call in \<open>requests\<close>; a call the console answers
  without an error is recorded in \<open>written\<close> as well, as the text and the style name it
  was given, and a call that raises writes nothing. The state is returned in both
  cases, since it outlives an exception.
\<close>

definition console_outcome ::
  "renderer \<Rightarrow> dict \<Rightarrow> ustring \<Rightarrow> ustring \<Rightarrow> console_error option" where
  "console_outcome R th txt style =
     (case write_error R txt of
        Some e \<Rightarrow> Some e
      | None \<Rightarrow> if style \<in> set (dict_keys th) then None else style_error R style)"

definition console_print ::
  "renderer \<Rightarrow> console \<Rightarrow> ustring \<Rightarrow> ustring \<Rightarrow> world \<Rightarrow> (console_error + unit) \<times> world" where
  "console_print R c txt style w =
     (let w1 = w\<lparr>requests := requests w @ [(c, txt, style)]\<rparr> in
      case console_outcome R (theme c) txt style of
        None \<Rightarrow> (Inr (), w1\<lparr>written := written w1 @ [(txt, style)]\<rparr>)
      | Some e \<Rightarrow> (Inl e, w1))"

section \<open>The helper functions\<close>

text \<open>Line 122: \<^verbatim>\<open>icon = STATUS_ICONS.get(status, "")\<close>.\<close>

definition resolve_icon :: "dict \<Rightarrow> ustring \<Rightarrow> ustring" where
  "resolve_icon icons status = dict_get icons status []"

text \<open>
  \<^verbatim>\<open>print_status\<close> (lines 113-124):
  \<^verbatim>\<open>
    console = get_console()
    icon = STATUS_ICONS.get(status, "")
    style = status
    console.print(f"{icon} {message}", style=style)
  \<close>
  An f-string places a \<^verbatim>\<open>str\<close> as it is, so the text is the icon, one space (code
  point 32) and the message. The model takes the status kind as an argument; the
  default \<^verbatim>\<open>"info"\<close> is what a caller passes by leaving it out.
\<close>

definition print_status ::
  "renderer \<Rightarrow> ustring \<Rightarrow> ustring \<Rightarrow> world \<Rightarrow> (console_error + unit) \<times> world" where
  "print_status R message status w =
     (let (console, w1) = get_console w;
          icon = resolve_icon (STATUS_ICONS_v w1) status;
          style = status
      in console_print R console (icon @ ustr '' '' @ message) style w1)"

text \<open>
  \<^verbatim>\<open>print_section\<close> (lines 126-137):
  \<^verbatim>\<open>
    console = get_console()
    console.print(f"\n{title}", style="title")
    if body:
        console.print(body, style="context")
  \<close>
  An exception of the first call leaves the function before the second one. The
  newline is code point 10.
\<close>

definition print_section ::
  "renderer \<Rightarrow> ustring \<Rightarrow> ustring \<Rightarrow> world \<Rightarrow> (console_error + unit) \<times> world" where
  "print_section R title body w =
     (let (console, w1) = get_console w;
          (r, w2) = console_print R console ([10] @ title) (ustr ''title'') w1
      in case r of
           Inl e \<Rightarrow> (Inl e, w2)
         | Inr _ \<Rightarrow>
             if body \<noteq> [] then console_print R console body (ustr ''context'') w2
             else (Inr (), w2))"

section \<open>Sequences of calls\<close>

text \<open>
  A client's calls to the three exported functions. After a call that raised, the
  client may go on with the state as the call left it.
\<close>

datatype call = GetConsole | PrintStatus ustring ustring | PrintSection ustring ustring

fun call_step :: "renderer \<Rightarrow> call \<Rightarrow> world \<Rightarrow> world" where
  "call_step R GetConsole w = snd (get_console w)"
| "call_step R (PrintStatus message status) w = snd (print_status R message status w)"
| "call_step R (PrintSection title body) w = snd (print_section R title body w)"

fun run :: "renderer \<Rightarrow> call list \<Rightarrow> world \<Rightarrow> world" where
  "run R [] w = w"
| "run R (c # cs) w = run R cs (call_step R c w)"

section \<open>Notions used in the properties\<close>

text \<open>
  Three renderers. The first two never fail on a text. The first resolves the names of
  the console's theme and no other: for every other name it raises. (The rich library,
  which the module imports, raises its \<^verbatim>\<open>MissingStyle\<close> error in
  \<^verbatim>\<open>Console.get_style\<close> for a name that is neither a key of the theme nor a style
  definition it can parse.) The second renders every name.
\<close>

definition theme_only_renderer :: renderer where
  "theme_only_renderer =
     \<lparr>write_error = (\<lambda>txt. None), style_error = (\<lambda>name. Some (MissingStyle name))\<rparr>"

definition lenient_renderer :: renderer where
  "lenient_renderer = \<lparr>write_error = (\<lambda>txt. None), style_error = (\<lambda>name. None)\<rparr>"

text \<open>
  The third renderer reads markup: it raises on a text whose first opening bracket
  (code point 91) is followed by a slash (code point 47), that is, on a closing tag
  with no tag open before it, such as \<^verbatim>\<open>[/x]\<close>. (The rich library raises its
  \<^verbatim>\<open>MarkupError\<close> on such a text.) It resolves theme names only.
\<close>

fun first_tag_closes :: "ustring \<Rightarrow> bool" where
  "first_tag_closes [] = False"
| "first_tag_closes [c] = False"
| "first_tag_closes (c # d # cs) = (if c = 91 then d = 47 else first_tag_closes (d # cs))"

definition markup_renderer :: renderer where
  "markup_renderer =
     \<lparr>write_error = (\<lambda>txt. if first_tag_closes txt then Some (MarkupError txt) else None),
      style_error = (\<lambda>name. Some (MissingStyle name))\<rparr>"

text \<open>The text and style pairs written between a state and a later one.\<close>

definition emitted :: "world \<Rightarrow> world \<Rightarrow> (ustring \<times> ustring) list" where
  "emitted w w' = drop (length (written w)) (written w')"

text \<open>
  A style specification is a list of words separated by spaces (code point 32). The
  colours of the module's palette (docstring, lines 9-17) are written \<^verbatim>\<open>#RRGGBB\<close>: a
  number sign (code point 35) and six hexadecimal digits. A specification contains a
  colour token when one of its words is such a colour.
\<close>

definition is_hex_digit :: "nat \<Rightarrow> bool" where
  "is_hex_digit c \<longleftrightarrow>
     (48 \<le> c \<and> c \<le> 57) \<or> (65 \<le> c \<and> c \<le> 70) \<or> (97 \<le> c \<and> c \<le> 102)"

definition is_hex_color :: "ustring \<Rightarrow> bool" where
  "is_hex_color t \<longleftrightarrow>
     (case t of [] \<Rightarrow> False | c # ds \<Rightarrow> c = 35 \<and> length ds = 6 \<and> list_all is_hex_digit ds)"

fun words_acc :: "ustring \<Rightarrow> ustring \<Rightarrow> ustring list" where
  "words_acc cur [] = (if cur = [] then [] else [cur])"
| "words_acc cur (c # cs) =
     (if c = 32 then (if cur = [] then words_acc [] cs else cur # words_acc [] cs)
      else words_acc (cur @ [c]) cs)"

definition style_words :: "ustring \<Rightarrow> ustring list" where
  "style_words s = words_acc [] s"

definition has_color_token :: "ustring \<Rightarrow> bool" where
  "has_color_token s \<longleftrightarrow> list_ex is_hex_color (style_words s)"

section \<open>Basic facts\<close>

lemma ustr_eq_iff [simp]: "ustr a = ustr b \<longleftrightarrow> a = b"
  by (simp add: ustr_def inj_on_def)

lemma ustr_append [simp]: "ustr a @ ustr b = ustr (a @ b)"
  by (simp add: ustr_def)

lemma ustr_eq_Nil [simp]: "ustr a = [] \<longleftrightarrow> a = []"
  by (simp add: ustr_def)

lemma distinct_keys:
  "distinct (dict_keys toolkit_theme)" "distinct (dict_keys STATUS_ICONS)"
  "distinct (dict_keys PROGRESS_BAR_STYLE)"
  by (simp_all add: dict_keys_def toolkit_theme_def STATUS_ICONS_def PROGRESS_BAR_STYLE_def)

lemma module_load_tables: "tables_loaded module_load"
  by (simp add: tables_loaded_def module_load_def)

lemma get_console_simps [simp]:
  "fst (get_console w) = \<lparr>ident = constructed w, theme = toolkit_theme_v w, highlight = False\<rparr>"
  "snd (get_console w) = w\<lparr>constructed := Suc (constructed w)\<rparr>"
  by (simp_all add: get_console_def)

lemma theme_keys:
  "dict_keys toolkit_theme = map ustr
     [''success'', ''warning'', ''error'', ''info'', ''context'', ''comment'', ''meta'',
      ''educational'', ''diff.add'', ''diff.remove'', ''diff.context'', ''prompt'', ''title'',
      ''subtitle'', ''file'', ''path'', ''code.keyword'', ''code.function'', ''code.string'',
      ''code.number'', ''code.comment'', ''code.type'', ''code.operator'',
      ''progress.description'', ''progress.percentage'', ''progress.download'',
      ''progress.remaining'', ''table.header'', ''table.border'', ''table.cell'', ''link'',
      ''highlight'', ''emphasis'', ''strong'']"
  by (simp add: dict_keys_def toolkit_theme_def)

lemma icon_keys:
  "dict_keys STATUS_ICONS = map ustr
     [''success'', ''warning'', ''error'', ''info'', ''context'', ''learning'', ''drift'',
      ''ship'', ''thought'', ''lambda'']"
  by (simp add: dict_keys_def STATUS_ICONS_def)

lemma ustr_mem_iff: "ustr a \<in> set (map ustr xs) \<longleftrightarrow> a \<in> set xs"
  by (induction xs) auto

lemma title_context_keys:
  "ustr ''title'' \<in> set (dict_keys toolkit_theme)"
  "ustr ''context'' \<in> set (dict_keys toolkit_theme)"
  by (simp_all only: theme_keys ustr_mem_iff) simp_all

lemma nonexistent_status_no_key:
  "ustr ''nonexistent_status'' \<notin> set (dict_keys STATUS_ICONS)"
  "ustr ''nonexistent_status'' \<notin> set (dict_keys toolkit_theme)"
  by (simp_all only: theme_keys icon_keys ustr_mem_iff) simp_all

lemma resolve_icon_miss:
  "k \<notin> set (dict_keys d) \<Longrightarrow> resolve_icon d k = []"
  by (simp add: resolve_icon_def dict_get_def dict_keys_def map_of_eq_None_iff [THEN iffD2])

subsection \<open>What the calls leave alone\<close>

lemma console_print_frame [simp]:
  "toolkit_theme_v (snd (console_print R c t s w)) = toolkit_theme_v w"
  "STATUS_ICONS_v (snd (console_print R c t s w)) = STATUS_ICONS_v w"
  "PROGRESS_BAR_STYLE_v (snd (console_print R c t s w)) = PROGRESS_BAR_STYLE_v w"
  "constructed (snd (console_print R c t s w)) = constructed w"
  by (simp_all add: console_print_def Let_def split: option.splits)

lemma console_print_frameD:
  "console_print R c t s w = (r, w') \<Longrightarrow>
     toolkit_theme_v w' = toolkit_theme_v w \<and> STATUS_ICONS_v w' = STATUS_ICONS_v w \<and>
     PROGRESS_BAR_STYLE_v w' = PROGRESS_BAR_STYLE_v w \<and> constructed w' = constructed w"
  using console_print_frame [of R c t s w] by simp

lemma print_status_frame [simp]:
  "toolkit_theme_v (snd (print_status R m s w)) = toolkit_theme_v w"
  "STATUS_ICONS_v (snd (print_status R m s w)) = STATUS_ICONS_v w"
  "PROGRESS_BAR_STYLE_v (snd (print_status R m s w)) = PROGRESS_BAR_STYLE_v w"
  "constructed (snd (print_status R m s w)) = Suc (constructed w)"
  by (simp_all add: print_status_def get_console_def Let_def)

lemma print_section_frame [simp]:
  "toolkit_theme_v (snd (print_section R t b w)) = toolkit_theme_v w"
  "STATUS_ICONS_v (snd (print_section R t b w)) = STATUS_ICONS_v w"
  "PROGRESS_BAR_STYLE_v (snd (print_section R t b w)) = PROGRESS_BAR_STYLE_v w"
  "constructed (snd (print_section R t b w)) = Suc (constructed w)"
  by (auto simp: print_section_def get_console_def Let_def split: prod.splits sum.splits
      dest!: console_print_frameD)

lemma call_step_frame:
  "toolkit_theme_v (call_step R c w) = toolkit_theme_v w"
  "STATUS_ICONS_v (call_step R c w) = STATUS_ICONS_v w"
  "PROGRESS_BAR_STYLE_v (call_step R c w) = PROGRESS_BAR_STYLE_v w"
  "constructed (call_step R c w) = Suc (constructed w)"
  by (cases c; simp)+

lemma run_frame:
  "toolkit_theme_v (run R cs w) = toolkit_theme_v w"
  "STATUS_ICONS_v (run R cs w) = STATUS_ICONS_v w"
  "PROGRESS_BAR_STYLE_v (run R cs w) = PROGRESS_BAR_STYLE_v w"
  "constructed (run R cs w) = constructed w + length cs"
  by (induction cs arbitrary: w; simp add: call_step_frame)+

subsection \<open>What a call to the console does\<close>

lemma icon_lookup:
  "(k, g) \<in> set STATUS_ICONS \<Longrightarrow> resolve_icon STATUS_ICONS k = g"
  using distinct_keys(2)
  by (simp add: resolve_icon_def dict_get_def dict_keys_def map_of_is_SomeI)

lemma console_outcome_theme_key:
  "style \<in> set (dict_keys th) \<Longrightarrow> console_outcome R th txt style = write_error R txt"
  by (simp add: console_outcome_def split: option.splits)

lemma print_status_any:
  "print_status R message status w =
     (let c = fst (get_console w);
          txt = resolve_icon (STATUS_ICONS_v w) status @ ustr '' '' @ message;
          w1 = (snd (get_console w))\<lparr>requests := requests w @ [(c, txt, status)]\<rparr>
      in case console_outcome R (toolkit_theme_v w) txt status of
           None \<Rightarrow> (Inr (), w1\<lparr>written := written w @ [(txt, status)]\<rparr>)
         | Some e \<Rightarrow> (Inl e, w1))"
  by (simp add: print_status_def get_console_def console_print_def Let_def split: option.splits)

lemma print_section_any:
  "print_section R title body w =
     (let c = fst (get_console w);
          th = toolkit_theme_v w;
          t1 = ([10] @ title, ustr ''title'');
          t2 = (body, ustr ''context'');
          w0 = snd (get_console w)
      in case console_outcome R th ([10] @ title) (ustr ''title'') of
           Some e \<Rightarrow> (Inl e, w0\<lparr>requests := requests w @ [(c, t1)]\<rparr>)
         | None \<Rightarrow>
             if body = []
             then (Inr (), w0\<lparr>requests := requests w @ [(c, t1)],
                               written := written w @ [t1]\<rparr>)
             else (case console_outcome R th body (ustr ''context'') of
                     Some e \<Rightarrow> (Inl e, w0\<lparr>requests := requests w @ [(c, t1), (c, t2)],
                                           written := written w @ [t1]\<rparr>)
                   | None \<Rightarrow> (Inr (), w0\<lparr>requests := requests w @ [(c, t1), (c, t2)],
                                         written := written w @ [t1, t2]\<rparr>)))"
  by (simp add: print_section_def get_console_def console_print_def Let_def
      split: option.splits)

lemma print_status_emitted:
  "emitted w (snd (print_status R m s w)) =
     (case console_outcome R (toolkit_theme_v w) (resolve_icon (STATUS_ICONS_v w) s @ ustr '' '' @ m) s of
        None \<Rightarrow> [(resolve_icon (STATUS_ICONS_v w) s @ ustr '' '' @ m, s)]
      | Some e \<Rightarrow> [])"
  "fst (print_status R m s w) =
     (case console_outcome R (toolkit_theme_v w) (resolve_icon (STATUS_ICONS_v w) s @ ustr '' '' @ m) s of
        None \<Rightarrow> Inr ()
      | Some e \<Rightarrow> Inl e)"
  by (simp_all add: print_status_any emitted_def Let_def split: option.splits)

lemma print_section_emitted:
  "emitted w (snd (print_section R t b w)) =
     (case console_outcome R (toolkit_theme_v w) ([10] @ t) (ustr ''title'') of
        Some e \<Rightarrow> []
      | None \<Rightarrow>
          ([10] @ t, ustr ''title'') #
          (if b \<noteq> [] \<and> console_outcome R (toolkit_theme_v w) b (ustr ''context'') = None
           then [(b, ustr ''context'')] else []))"
  "fst (print_section R t b w) =
     (case console_outcome R (toolkit_theme_v w) ([10] @ t) (ustr ''title'') of
        Some e \<Rightarrow> Inl e
      | None \<Rightarrow>
          if b = [] then Inr ()
          else (case console_outcome R (toolkit_theme_v w) b (ustr ''context'') of
                  None \<Rightarrow> Inr ()
                | Some e \<Rightarrow> Inl e))"
  by (auto simp: print_section_any emitted_def Let_def split: option.splits)

section \<open>The icon table\<close>

text \<open>
  Claim C7. The icon table maps the keys "warning" and "drift" to the same glyph: both
  lookups find an entry, the entries are the same string (the code points U+00E2,
  U+0161, U+00A0, U+00EF, U+00B8 of the file), and so the icon lookup of
  \<^verbatim>\<open>print_status\<close> returns equal strings for the two keys.
\<close>

theorem warning_drift_share_glyph:
  "map_of STATUS_ICONS (ustr ''warning'') = Some [0xE2, 0x161, 0xA0, 0xEF, 0xB8] \<and>
   map_of STATUS_ICONS (ustr ''drift'') = Some [0xE2, 0x161, 0xA0, 0xEF, 0xB8] \<and>
   resolve_icon STATUS_ICONS (ustr ''warning'') = resolve_icon STATUS_ICONS (ustr ''drift'')"
  by (simp add: STATUS_ICONS_def resolve_icon_def dict_get_def)

text \<open>
  Claim C4. For every key of the icon table, the icon lookup of \<^verbatim>\<open>print_status\<close>
  returns the glyph the table lists for that key; for every key that is not in the
  table it returns the empty string. The lookup is a total function with no error
  result: \<^verbatim>\<open>dict.get\<close> with a default does not raise.
\<close>

theorem resolve_icon_table_or_empty:
  "(\<forall>(k, g) \<in> set STATUS_ICONS. resolve_icon STATUS_ICONS k = g) \<and>
   (\<forall>k. k \<notin> set (dict_keys STATUS_ICONS) \<longrightarrow> resolve_icon STATUS_ICONS k = [])"
proof (intro conjI ballI allI impI)
  fix p assume p: "p \<in> set STATUS_ICONS"
  obtain k g where "p = (k, g)" by (cases p)
  with p show "case p of (k, g) \<Rightarrow> resolve_icon STATUS_ICONS k = g"
    by (simp add: icon_lookup)
next
  fix k assume "k \<notin> set (dict_keys STATUS_ICONS)"
  then show "resolve_icon STATUS_ICONS k = []"
    by (rule resolve_icon_miss)
qed

theorem resolve_icon_table_or_empty_witness:
  "(ustr ''ship'', [0xF0, 0x178, 0x161, 0x20AC]) \<in> set STATUS_ICONS \<and>
   resolve_icon STATUS_ICONS (ustr ''ship'') = [0xF0, 0x178, 0x161, 0x20AC] \<and>
   ustr ''nonexistent_status'' \<notin> set (dict_keys STATUS_ICONS) \<and>
   resolve_icon STATUS_ICONS (ustr ''nonexistent_status'') = []"
proof -
  have m: "(ustr ''ship'', [0xF0, 0x178, 0x161, 0x20AC]) \<in> set STATUS_ICONS"
    by (simp add: STATUS_ICONS_def)
  have n: "ustr ''nonexistent_status'' \<notin> set (dict_keys STATUS_ICONS)"
    by (rule nonexistent_status_no_key)
  have a: "resolve_icon STATUS_ICONS (ustr ''ship'') = [0xF0, 0x178, 0x161, 0x20AC]"
    using bspec [OF resolve_icon_table_or_empty [THEN conjunct1] m] by simp
  have b: "resolve_icon STATUS_ICONS (ustr ''nonexistent_status'') = []"
    using resolve_icon_table_or_empty [THEN conjunct2, rule_format, OF n] .
  show ?thesis by (intro conjI m a n b)
qed

section \<open>The style table\<close>

text \<open>
  Claim C6. For every key of the style table, resolving the key (a lookup in the
  table) yields the specification listed for it, which is a non-empty string and
  contains a colour token.
\<close>

theorem style_specs_nonempty_with_color:
  "\<forall>(k, v) \<in> set toolkit_theme.
     dict_get toolkit_theme k [] = v \<and> v \<noteq> [] \<and> has_color_token v"
  by (simp add: toolkit_theme_def dict_get_def has_color_token_def style_words_def
      is_hex_color_def is_hex_digit_def ustr_def)

theorem style_specs_nonempty_with_color_witness:
  "(ustr ''diff.add'', ustr ''black on #00FF88'') \<in> set toolkit_theme \<and>
   dict_get toolkit_theme (ustr ''diff.add'') [] = ustr ''black on #00FF88'' \<and>
   ustr ''black on #00FF88'' \<noteq> [] \<and> has_color_token (ustr ''black on #00FF88'')"
proof -
  have m: "(ustr ''diff.add'', ustr ''black on #00FF88'') \<in> set toolkit_theme"
    by (simp add: toolkit_theme_def)
  show ?thesis
    using m bspec [OF style_specs_nonempty_with_color m] by simp
qed

section \<open>The tables are never changed\<close>

text \<open>
  Claim C8. The style table, the icon table and the progress-bar style table are bound
  once, when the module is loaded, and no exported operation changes them: after any
  sequence of calls to \<^verbatim>\<open>get_console\<close>, \<^verbatim>\<open>print_status\<close> and \<^verbatim>\<open>print_section\<close>,
  started in any state and whatever the renderer does, the three tables are what they
  were; started after the module load, they are the three literals of the module.
\<close>

theorem tables_never_mutated:
  "toolkit_theme_v (run R cs w) = toolkit_theme_v w \<and>
   STATUS_ICONS_v (run R cs w) = STATUS_ICONS_v w \<and>
   PROGRESS_BAR_STYLE_v (run R cs w) = PROGRESS_BAR_STYLE_v w \<and>
   tables_loaded (run R cs module_load)"
  by (simp add: run_frame tables_loaded_def module_load_def)

section \<open>Consoles\<close>

text \<open>
  Claim C5. Every call to \<^verbatim>\<open>get_console\<close> constructs a new console: the console of
  a later call, whatever exported calls were made in between, is not the object an
  earlier call returned. All of them are configured alike: the theme is the style
  table and highlighting is off.
\<close>

theorem get_console_fresh_same_configuration:
  "ident (fst (get_console (run R cs (snd (get_console w))))) \<noteq> ident (fst (get_console w)) \<and>
   theme (fst (get_console (run R cs (snd (get_console w))))) = theme (fst (get_console w)) \<and>
   highlight (fst (get_console (run R cs (snd (get_console w))))) =
     highlight (fst (get_console w)) \<and>
   theme (fst (get_console w)) = toolkit_theme_v w \<and>
   highlight (fst (get_console w)) = False \<and>
   theme (fst (get_console (run R cs module_load))) = toolkit_theme"
  by (simp add: run_frame module_load_def)

section \<open>\<^verbatim>\<open>print_section\<close>\<close>

text \<open>
  Claim C3, as amended. For every title and body, \<^verbatim>\<open>print_section\<close> hands a newline
  followed by the title, styled "title", to a new console. When the console raises on
  that text, its error reaches the caller, nothing is written and the body is not
  handed over. Otherwise the line is written, and with an empty body nothing further
  happens: exactly one write. With a non-empty body exactly one more call follows, the
  body styled "context": it is written when the console renders it, and otherwise its
  error reaches the caller after the title line has been written. Both style names are
  keys of the style table, so the style name is never the reason of a failure.
\<close>

theorem print_section_writes:
  assumes "tables_loaded w"
  shows "print_section R title body w =
     (let c = fst (get_console w);
          t1 = ([10] @ title, ustr ''title'');
          t2 = (body, ustr ''context'');
          w0 = w\<lparr>constructed := Suc (constructed w)\<rparr>
      in case write_error R ([10] @ title) of
           Some e \<Rightarrow> (Inl e, w0\<lparr>requests := requests w @ [(c, t1)]\<rparr>)
         | None \<Rightarrow>
             if body = []
             then (Inr (), w0\<lparr>requests := requests w @ [(c, t1)],
                               written := written w @ [t1]\<rparr>)
             else (case write_error R body of
                     Some e \<Rightarrow> (Inl e, w0\<lparr>requests := requests w @ [(c, t1), (c, t2)],
                                           written := written w @ [t1]\<rparr>)
                   | None \<Rightarrow> (Inr (), w0\<lparr>requests := requests w @ [(c, t1), (c, t2)],
                                         written := written w @ [t1, t2]\<rparr>)))"
proof -
  from assms have th: "toolkit_theme_v w = toolkit_theme"
    by (simp add: tables_loaded_def)
  show ?thesis
    by (simp add: print_section_any th console_outcome_theme_key [OF title_context_keys(1)]
        console_outcome_theme_key [OF title_context_keys(2)] Let_def split: option.splits)
qed

theorem print_section_writes_witness:
  "tables_loaded module_load \<and>
   fst (print_section theme_only_renderer (ustr ''Title'') [] module_load) = Inr () \<and>
   written (snd (print_section theme_only_renderer (ustr ''Title'') [] module_load)) =
     [([10] @ ustr ''Title'', ustr ''title'')] \<and>
   fst (print_section theme_only_renderer (ustr ''Title'') (ustr ''Body text'') module_load) =
     Inr () \<and>
   written (snd (print_section theme_only_renderer (ustr ''Title'') (ustr ''Body text'')
       module_load)) =
     [([10] @ ustr ''Title'', ustr ''title''), (ustr ''Body text'', ustr ''context'')]"
  using module_load_tables
    print_section_writes [OF module_load_tables, of theme_only_renderer "ustr ''Title''" "[]"]
    print_section_writes [OF module_load_tables, of theme_only_renderer "ustr ''Title''"
      "ustr ''Body text''"]
  by (simp add: module_load_def ustr_def theme_only_renderer_def Let_def)

text \<open>
  The claim as stated fails with a renderer that reads markup. On the title
  \<^verbatim>\<open>[/x]\<close> the call raises and nothing is written, the body included; on the body
  \<^verbatim>\<open>[/x]\<close> the call raises after the title line has been written.
\<close>

theorem print_section_writes_counterexample:
  "print_section markup_renderer (ustr ''[/x]'') (ustr ''Body text'') module_load =
     (Inl (MarkupError ([10] @ ustr ''[/x]'')),
      module_load\<lparr>constructed := 1,
        requests := [(\<lparr>ident = 0, theme = toolkit_theme, highlight = False\<rparr>,
                      [10] @ ustr ''[/x]'', ustr ''title'')]\<rparr>) \<and>
   written (snd (print_section markup_renderer (ustr ''[/x]'') (ustr ''Body text'')
       module_load)) = [] \<and>
   fst (print_section markup_renderer (ustr ''Title'') (ustr ''[/x]'') module_load) =
     Inl (MarkupError (ustr ''[/x]'')) \<and>
   written (snd (print_section markup_renderer (ustr ''Title'') (ustr ''[/x]'') module_load)) =
     [([10] @ ustr ''Title'', ustr ''title'')]"
proof -
  have e1: "write_error markup_renderer (10 # ustr ''[/x]'') =
      Some (MarkupError (10 # ustr ''[/x]''))"
    by (simp add: markup_renderer_def ustr_def)
  have e2: "write_error markup_renderer (10 # ustr ''Title'') = None"
    by (simp add: markup_renderer_def ustr_def)
  have e3: "write_error markup_renderer (ustr ''[/x]'') = Some (MarkupError (ustr ''[/x]''))"
    by (simp add: markup_renderer_def ustr_def)
  have k: "toolkit_theme_v module_load = toolkit_theme"
    by (simp add: module_load_def)
  have p: "print_section markup_renderer (ustr ''[/x]'') (ustr ''Body text'') module_load =
     (Inl (MarkupError ([10] @ ustr ''[/x]'')),
      module_load\<lparr>constructed := 1,
        requests := [(\<lparr>ident = 0, theme = toolkit_theme, highlight = False\<rparr>,
                      [10] @ ustr ''[/x]'', ustr ''title'')]\<rparr>)"
    by (simp add: print_section_any k e1 Let_def
        console_outcome_theme_key [OF title_context_keys(1)])
      (simp add: module_load_def)
  have w: "written (snd (print_section markup_renderer (ustr ''[/x]'') (ustr ''Body text'')
       module_load)) = []"
    by (subst p) (simp add: module_load_def)
  have q: "print_section markup_renderer (ustr ''Title'') (ustr ''[/x]'') module_load =
     (Inl (MarkupError (ustr ''[/x]'')),
      module_load\<lparr>constructed := 1,
        requests := [(\<lparr>ident = 0, theme = toolkit_theme, highlight = False\<rparr>,
                      [10] @ ustr ''Title'', ustr ''title''),
                     (\<lparr>ident = 0, theme = toolkit_theme, highlight = False\<rparr>,
                      ustr ''[/x]'', ustr ''context'')],
        written := [([10] @ ustr ''Title'', ustr ''title'')]\<rparr>)"
    by (simp add: print_section_any k e2 e3 Let_def
        console_outcome_theme_key [OF title_context_keys(1)]
        console_outcome_theme_key [OF title_context_keys(2)])
      (simp add: module_load_def)
  have f: "fst (print_section markup_renderer (ustr ''Title'') (ustr ''[/x]'') module_load) =
     Inl (MarkupError (ustr ''[/x]''))"
    by (subst q) simp
  have v: "written (snd (print_section markup_renderer (ustr ''Title'') (ustr ''[/x]'')
       module_load)) = [([10] @ ustr ''Title'', ustr ''title'')]"
    by (subst q) (simp add: module_load_def)
  show ?thesis by (intro conjI p w f v)
qed

section \<open>\<^verbatim>\<open>print_status\<close>\<close>

text \<open>
  The glyph stored for "success" (line 83) is the string of the three code points
  U+00E2, U+0153, U+2026. It is not the one-code-point string U+2705, so the text
  \<^verbatim>\<open>print_status("Phase 3 Complete", "success")\<close> hands to the console does not begin
  with U+2705.
\<close>

lemma success_glyph_as_stored:
  "map_of STATUS_ICONS (ustr ''success'') = Some [0xE2, 0x153, 0x2026] \<and>
   map fst (emitted module_load
     (snd (print_status R (ustr ''Phase 3 Complete'') (ustr ''success'') module_load))) \<noteq>
     [[0x2705] @ ustr '' Phase 3 Complete'']"
proof -
  have g: "resolve_icon STATUS_ICONS (ustr ''success'') = [0xE2, 0x153, 0x2026]"
    by (simp add: resolve_icon_def dict_get_def STATUS_ICONS_def)
  have m: "map_of STATUS_ICONS (ustr ''success'') = Some [0xE2, 0x153, 0x2026]"
    by (simp add: STATUS_ICONS_def)
  have s: "STATUS_ICONS_v module_load = STATUS_ICONS"
    by (simp add: module_load_def)
  show ?thesis
    using m by (simp add: print_status_emitted s g split: option.splits)
qed

text \<open>
  Claim C2, as amended. For every message and every status kind of the icon table,
  \<^verbatim>\<open>print_status\<close> hands to a new console the glyph the table stores for the status
  kind, one space and the message, with the status kind as style name. When the
  console raises on the text, its error reaches the caller and nothing is written.
  Otherwise, when the status kind is also a key of the style table, or the renderer
  accepts the name, exactly this text is written with that style and the call returns;
  and when the renderer rejects the name, its error reaches the caller and nothing is
  written.
\<close>

theorem print_status_icon_status:
  assumes "tables_loaded w" and "(status, icon) \<in> set STATUS_ICONS"
  shows "print_status R message status w =
     (let c = fst (get_console w);
          txt = icon @ ustr '' '' @ message;
          w1 = (snd (get_console w))\<lparr>requests := requests w @ [(c, txt, status)]\<rparr>
      in case write_error R txt of
           Some e \<Rightarrow> (Inl e, w1)
         | None \<Rightarrow>
             if status \<in> set (dict_keys toolkit_theme)
             then (Inr (), w1\<lparr>written := written w @ [(txt, status)]\<rparr>)
             else (case style_error R status of
                     None \<Rightarrow> (Inr (), w1\<lparr>written := written w @ [(txt, status)]\<rparr>)
                   | Some e \<Rightarrow> (Inl e, w1)))"
  using assms
  by (simp add: print_status_any tables_loaded_def icon_lookup console_outcome_def Let_def
      split: option.splits)

theorem print_status_icon_status_witness:
  "tables_loaded module_load \<and>
   (ustr ''success'', [0xE2, 0x153, 0x2026]) \<in> set STATUS_ICONS \<and>
   print_status theme_only_renderer (ustr ''Phase 3 Complete'') (ustr ''success'') module_load =
     (Inr (),
      module_load\<lparr>constructed := 1,
        requests := [(\<lparr>ident = 0, theme = toolkit_theme, highlight = False\<rparr>,
                      [0xE2, 0x153, 0x2026] @ ustr '' Phase 3 Complete'', ustr ''success'')],
        written := [([0xE2, 0x153, 0x2026] @ ustr '' Phase 3 Complete'', ustr ''success'')]\<rparr>)"
proof -
  have m: "(ustr ''success'', [0xE2, 0x153, 0x2026]) \<in> set STATUS_ICONS"
    by (simp add: STATUS_ICONS_def)
  have k: "ustr ''success'' \<in> set (dict_keys toolkit_theme)"
    by (simp only: theme_keys ustr_mem_iff) simp
  show ?thesis
    using module_load_tables m k
      print_status_icon_status [OF module_load_tables m, of theme_only_renderer
        "ustr ''Phase 3 Complete''"]
    by (simp add: module_load_def Let_def theme_only_renderer_def)
qed

text \<open>
  The claim as stated fails twice. "learning" is a key of the icon table, and with a
  renderer that resolves theme names only the call raises and writes nothing; and the
  text written for "success" is not U+2705 followed by " Phase 3 Complete".
\<close>

theorem print_status_icon_status_counterexample:
  "(ustr ''learning'') \<in> set (dict_keys STATUS_ICONS) \<and>
   print_status theme_only_renderer (ustr ''Phase 3 Complete'') (ustr ''learning'') module_load =
     (Inl (MissingStyle (ustr ''learning'')),
      module_load\<lparr>constructed := 1,
        requests := [(\<lparr>ident = 0, theme = toolkit_theme, highlight = False\<rparr>,
                      [0xF0, 0x178, 0x2019, 0xA1] @ ustr '' Phase 3 Complete'', ustr ''learning'')]\<rparr>) \<and>
   written (snd (print_status theme_only_renderer (ustr ''Phase 3 Complete'') (ustr ''learning'')
      module_load)) = [] \<and>
   written (snd (print_status theme_only_renderer (ustr ''Phase 3 Complete'') (ustr ''success'')
      module_load)) \<noteq> [([0x2705] @ ustr '' Phase 3 Complete'', ustr ''success'')]"
proof -
  have i: "ustr ''learning'' \<in> set (dict_keys STATUS_ICONS)"
    by (simp only: icon_keys ustr_mem_iff) simp
  have k: "ustr ''learning'' \<notin> set (dict_keys toolkit_theme)"
    by (simp only: theme_keys ustr_mem_iff) simp
  have g: "resolve_icon STATUS_ICONS (ustr ''learning'') = [0xF0, 0x178, 0x2019, 0xA1]"
    by (simp add: resolve_icon_def dict_get_def STATUS_ICONS_def)
  have p: "print_status theme_only_renderer (ustr ''Phase 3 Complete'') (ustr ''learning'')
      module_load =
     (Inl (MissingStyle (ustr ''learning'')),
      module_load\<lparr>constructed := 1,
        requests := [(\<lparr>ident = 0, theme = toolkit_theme, highlight = False\<rparr>,
                      [0xF0, 0x178, 0x2019, 0xA1] @ ustr '' Phase 3 Complete'', ustr ''learning'')]\<rparr>)"
    using k g
    by (simp add: print_status_any module_load_def Let_def theme_only_renderer_def
        console_outcome_def)
  have w: "written (snd (print_status theme_only_renderer (ustr ''Phase 3 Complete'')
      (ustr ''learning'') module_load)) = []"
    by (subst p) (simp add: module_load_def)
  have g2: "resolve_icon STATUS_ICONS (ustr ''success'') = [0xE2, 0x153, 0x2026]"
    by (simp add: resolve_icon_def dict_get_def STATUS_ICONS_def)
  have k2: "ustr ''success'' \<in> set (dict_keys toolkit_theme)"
    by (simp only: theme_keys ustr_mem_iff) simp
  have s: "written (snd (print_status theme_only_renderer (ustr ''Phase 3 Complete'')
      (ustr ''success'') module_load)) \<noteq>
      [([0x2705] @ ustr '' Phase 3 Complete'', ustr ''success'')]"
    using k2 g2
    by (simp add: print_status_any module_load_def Let_def theme_only_renderer_def
        console_outcome_def)
  show ?thesis by (intro conjI i p w s)
qed

text \<open>
  Claim C1, as amended. For every message and every status kind that is in neither the
  icon table nor the style table ("nonexistent_status" is one), \<^verbatim>\<open>print_status\<close>
  finds no icon and raises nothing of its own: it hands the text made of one space and
  the message to a new console, with the status kind as style name. Whether the call
  returns is the console's decision: when it renders the text and accepts the name,
  exactly this text is written and the call returns; when it raises, on the text or on
  the name, which is outside its theme, its error reaches the caller unchanged and
  nothing is written.
\<close>

theorem print_status_unknown_status:
  assumes "tables_loaded w" and "status \<notin> set (dict_keys STATUS_ICONS)"
    and "status \<notin> set (dict_keys toolkit_theme)"
  shows "print_status R message status w =
     (let c = fst (get_console w);
          txt = ustr '' '' @ message;
          w1 = (snd (get_console w))\<lparr>requests := requests w @ [(c, txt, status)]\<rparr>
      in case write_error R txt of
           Some e \<Rightarrow> (Inl e, w1)
         | None \<Rightarrow>
             (case style_error R status of
                None \<Rightarrow> (Inr (), w1\<lparr>written := written w @ [(txt, status)]\<rparr>)
              | Some e \<Rightarrow> (Inl e, w1)))"
  using assms
  by (simp add: print_status_any tables_loaded_def resolve_icon_miss console_outcome_def Let_def
      split: option.splits)

theorem print_status_unknown_status_witness:
  "tables_loaded module_load \<and>
   ustr ''nonexistent_status'' \<notin> set (dict_keys STATUS_ICONS) \<and>
   ustr ''nonexistent_status'' \<notin> set (dict_keys toolkit_theme) \<and>
   print_status lenient_renderer (ustr ''Unknown thing'') (ustr ''nonexistent_status'')
       module_load =
     (Inr (),
      module_load\<lparr>constructed := 1,
        requests := [(\<lparr>ident = 0, theme = toolkit_theme, highlight = False\<rparr>,
                      ustr '' Unknown thing'', ustr ''nonexistent_status'')],
        written := [(ustr '' Unknown thing'', ustr ''nonexistent_status'')]\<rparr>)"
  using module_load_tables nonexistent_status_no_key
    print_status_unknown_status [OF module_load_tables nonexistent_status_no_key,
      of lenient_renderer "ustr ''Unknown thing''"]
  by (simp add: module_load_def Let_def lenient_renderer_def)

text \<open>
  The claim as stated fails with a renderer that resolves theme names only: the call
  raises, and nothing is written.
\<close>

theorem print_status_unknown_status_counterexample:
  "print_status theme_only_renderer (ustr ''Unknown thing'') (ustr ''nonexistent_status'')
       module_load =
     (Inl (MissingStyle (ustr ''nonexistent_status'')),
      module_load\<lparr>constructed := 1,
        requests := [(\<lparr>ident = 0, theme = toolkit_theme, highlight = False\<rparr>,
                      ustr '' Unknown thing'', ustr ''nonexistent_status'')]\<rparr>) \<and>
   written (snd (print_status theme_only_renderer (ustr ''Unknown thing'')
       (ustr ''nonexistent_status'') module_load)) = []"
proof -
  have g: "resolve_icon STATUS_ICONS (ustr ''nonexistent_status'') = []"
    by (rule resolve_icon_miss) (rule nonexistent_status_no_key)
  have p: "print_status theme_only_renderer (ustr ''Unknown thing'')
       (ustr ''nonexistent_status'') module_load =
     (Inl (MissingStyle (ustr ''nonexistent_status'')),
      module_load\<lparr>constructed := 1,
        requests := [(\<lparr>ident = 0, theme = toolkit_theme, highlight = False\<rparr>,
                      ustr '' Unknown thing'', ustr ''nonexistent_status'')]\<rparr>)"
    using g nonexistent_status_no_key(2)
    by (simp add: print_status_any module_load_def Let_def theme_only_renderer_def
        console_outcome_def)
  have w: "written (snd (print_status theme_only_renderer (ustr ''Unknown thing'')
       (ustr ''nonexistent_status'') module_load)) = []"
    by (subst p) (simp add: module_load_def)
  show ?thesis using p w by (intro conjI)
qed

text \<open>
  Claim C9. The keys "learning", "drift", "ship", "thought" and "lambda" are keys of the
  icon table and not of the style table, and they are all such keys. Called with one of
  them, \<^verbatim>\<open>print_status\<close> hands to the console a style name that the console's theme
  does not define, and the text it hands over begins with a non-empty icon, followed by
  one space and the message.
\<close>

theorem icon_only_status_forwarded:
  assumes "tables_loaded w"
    and "status \<in> set (map ustr [''learning'', ''drift'', ''ship'', ''thought'', ''lambda''])"
  shows "status \<in> set (dict_keys STATUS_ICONS) \<and>
     status \<notin> set (dict_keys toolkit_theme) \<and>
     filter (\<lambda>k. k \<notin> set (dict_keys toolkit_theme)) (dict_keys STATUS_ICONS) =
       map ustr [''learning'', ''drift'', ''ship'', ''thought'', ''lambda''] \<and>
     resolve_icon STATUS_ICONS status \<noteq> [] \<and>
     requests (snd (print_status R message status w)) =
       requests w @
         [(fst (get_console w), resolve_icon STATUS_ICONS status @ ustr '' '' @ message, status)] \<and>
     status \<notin> set (dict_keys (theme (fst (get_console w))))"
proof -
  have f: "filter (\<lambda>k. k \<notin> set (dict_keys toolkit_theme)) (dict_keys STATUS_ICONS) =
       map ustr [''learning'', ''drift'', ''ship'', ''thought'', ''lambda'']"
    by (simp only: theme_keys icon_keys ustr_mem_iff list.map filter.simps) simp
  from assms(2) have s: "status \<in> set (filter (\<lambda>k. k \<notin> set (dict_keys toolkit_theme))
      (dict_keys STATUS_ICONS))"
    by (simp only: f)
  then have i: "status \<in> set (dict_keys STATUS_ICONS)"
    and k: "status \<notin> set (dict_keys toolkit_theme)"
    by simp_all
  from assms(2) have g: "resolve_icon STATUS_ICONS status \<noteq> []"
    by (auto simp: resolve_icon_def dict_get_def STATUS_ICONS_def)
  have r: "requests (snd (print_status R message status w)) =
       requests w @
         [(fst (get_console w), resolve_icon STATUS_ICONS status @ ustr '' '' @ message, status)]"
    using assms(1) by (simp add: print_status_any tables_loaded_def Let_def split: option.splits)
  have t: "status \<notin> set (dict_keys (theme (fst (get_console w))))"
    using assms(1) k by (simp add: tables_loaded_def)
  show ?thesis by (intro conjI i k f g r t)
qed

theorem icon_only_status_forwarded_witness:
  "tables_loaded module_load \<and>
   ustr ''lambda'' \<in> set (map ustr [''learning'', ''drift'', ''ship'', ''thought'', ''lambda'']) \<and>
   ustr ''lambda'' \<in> set (dict_keys STATUS_ICONS) \<and>
   ustr ''lambda'' \<notin> set (dict_keys toolkit_theme) \<and>
   resolve_icon STATUS_ICONS (ustr ''lambda'') = [0xCE, 0xBB] \<and>
   requests (snd (print_status theme_only_renderer (ustr ''ready'') (ustr ''lambda'') module_load)) =
     [(\<lparr>ident = 0, theme = toolkit_theme, highlight = False\<rparr>,
       [0xCE, 0xBB] @ ustr '' ready'', ustr ''lambda'')]"
proof -
  have m: "ustr ''lambda'' \<in> set (map ustr [''learning'', ''drift'', ''ship'', ''thought'', ''lambda''])"
    by (simp only: ustr_mem_iff) simp
  have g: "resolve_icon STATUS_ICONS (ustr ''lambda'') = [0xCE, 0xBB]"
    by (simp add: resolve_icon_def dict_get_def STATUS_ICONS_def)
  show ?thesis
    using module_load_tables m g
      icon_only_status_forwarded [OF module_load_tables m, of theme_only_renderer "ustr ''ready''"]
    by (simp add: module_load_def)
qed

section \<open>Determinism\<close>

text \<open>
  Claim C10. \<^verbatim>\<open>print_status\<close> and \<^verbatim>\<open>print_section\<close> are deterministic: two calls
  with equal arguments, made in any two states that agree on the style table and the
  icon table (and facing the same renderer), write the same sequence of text and style
  pairs and end the same way. What was constructed, requested or written before has no
  influence.
\<close>

theorem print_helpers_deterministic:
  assumes "toolkit_theme_v w1 = toolkit_theme_v w2" and "STATUS_ICONS_v w1 = STATUS_ICONS_v w2"
  shows "emitted w1 (snd (print_status R message status w1)) =
       emitted w2 (snd (print_status R message status w2)) \<and>
     fst (print_status R message status w1) = fst (print_status R message status w2) \<and>
     emitted w1 (snd (print_section R title body w1)) =
       emitted w2 (snd (print_section R title body w2)) \<and>
     fst (print_section R title body w1) = fst (print_section R title body w2)"
  unfolding print_status_emitted print_section_emitted assms by simp

theorem print_helpers_deterministic_witness:
  "toolkit_theme_v module_load =
     toolkit_theme_v (snd (print_section lenient_renderer (ustr ''Title'') (ustr ''Body text'')
       module_load)) \<and>
   STATUS_ICONS_v module_load =
     STATUS_ICONS_v (snd (print_section lenient_renderer (ustr ''Title'') (ustr ''Body text'')
       module_load)) \<and>
   written (snd (print_section lenient_renderer (ustr ''Title'') (ustr ''Body text'')
       module_load)) \<noteq> written module_load \<and>
   emitted module_load
       (snd (print_status theme_only_renderer (ustr ''done'') (ustr ''info'') module_load)) =
     emitted (snd (print_section lenient_renderer (ustr ''Title'') (ustr ''Body text'') module_load))
       (snd (print_status theme_only_renderer (ustr ''done'') (ustr ''info'')
         (snd (print_section lenient_renderer (ustr ''Title'') (ustr ''Body text'') module_load))))"
proof -
  let ?w2 = "snd (print_section lenient_renderer (ustr ''Title'') (ustr ''Body text'') module_load)"
  have a: "toolkit_theme_v module_load = toolkit_theme_v ?w2"
    and b: "STATUS_ICONS_v module_load = STATUS_ICONS_v ?w2"
    by simp_all
  have c: "written ?w2 \<noteq> written module_load"
    using title_context_keys
    by (simp add: print_section_any console_outcome_def Let_def module_load_def
        lenient_renderer_def)
  show ?thesis
    using a b c print_helpers_deterministic [OF a b, of theme_only_renderer "ustr ''done''"
        "ustr ''info''"]
    by simp
qed

end
